theory Spec2Isabelle
  imports Complex_Main "HOL-Library.Sublist"
begin

section \<open>JavaScript values\<close>

text \<open>
  The services work on plain JavaScript values: what \<open>JSON.parse\<close> returns, the fields
  of a request body, the fields of the analysis object. A number carries the value of the
  double as a real (the infinities are left out; \<open>JNaN\<close> is the not-a-number value), a
  string is a list of characters, an object is the list of its properties.
\<close>

datatype jsval =
    JUndefined
  | JNull
  | JBool bool
  | JNum real
  | JNaN
  | JStr string
  | JArr "jsval list"
  | JObj "(string \<times> jsval) list"

text \<open>\<open>truthy v\<close> is the value of \<open>!!v\<close>; \<open>!v\<close> is \<open>falsy v\<close>.\<close>

fun truthy :: "jsval \<Rightarrow> bool" where
  "truthy JUndefined = False"
| "truthy JNull = False"
| "truthy (JBool b) = b"
| "truthy (JNum r) = (r \<noteq> 0)"
| "truthy JNaN = False"
| "truthy (JStr s) = (s \<noteq> [])"
| "truthy (JArr xs) = True"
| "truthy (JObj kvs) = True"

fun falsy :: "jsval \<Rightarrow> bool" where
  "falsy v = (\<not> truthy v)"

text \<open>\<open>a || b\<close> on values.\<close>

fun js_or :: "jsval \<Rightarrow> jsval \<Rightarrow> jsval" where
  "js_or a b = (if truthy a then a else b)"

text \<open>
  \<open>ToNumber\<close>, which the relational operators apply to an operand compared with a
  number; \<open>None\<close> is NaN. The conversion of a string, an array or an object (which goes
  through the runtime's number syntax and \<open>toString\<close>) is the parameter \<open>conv\<close>.
\<close>

type_synonym coercion = "jsval \<Rightarrow> real option"

fun ToNumber :: "coercion \<Rightarrow> jsval \<Rightarrow> real option" where
  "ToNumber conv JUndefined = None"
| "ToNumber conv JNull = Some 0"
| "ToNumber conv (JBool b) = Some (if b then 1 else 0)"
| "ToNumber conv (JNum r) = Some r"
| "ToNumber conv JNaN = None"
| "ToNumber conv v = conv v"

text \<open>\<open>v < r\<close>, \<open>v > r\<close> and \<open>v >= r\<close> for a number \<open>r\<close>: false when \<open>v\<close> converts to NaN.\<close>

definition js_lt :: "coercion \<Rightarrow> jsval \<Rightarrow> real \<Rightarrow> bool" where
  "js_lt conv v r = (case ToNumber conv v of None \<Rightarrow> False | Some x \<Rightarrow> x < r)"

definition js_gt :: "coercion \<Rightarrow> jsval \<Rightarrow> real \<Rightarrow> bool" where
  "js_gt conv v r = (case ToNumber conv v of None \<Rightarrow> False | Some x \<Rightarrow> r < x)"

definition js_ge :: "coercion \<Rightarrow> jsval \<Rightarrow> real \<Rightarrow> bool" where
  "js_ge conv v r = (case ToNumber conv v of None \<Rightarrow> False | Some x \<Rightarrow> r \<le> x)"

text \<open>
  Property access \<open>v.k\<close> for the property names the services read (none of them is a
  property of a primitive's prototype): a \<open>TypeError\<close> on \<open>undefined\<close> and \<open>null\<close>,
  \<open>undefined\<close> when the property is absent.
\<close>

fun get_prop :: "jsval \<Rightarrow> string \<Rightarrow> jsval option" where
  "get_prop JUndefined k = None"
| "get_prop JNull k = None"
| "get_prop (JObj kvs) k = Some (case map_of kvs k of None \<Rightarrow> JUndefined | Some v \<Rightarrow> v)"
| "get_prop v k = Some JUndefined"

text \<open>\<open>v.length\<close> of a truthy value.\<close>

fun length_prop :: "jsval \<Rightarrow> jsval" where
  "length_prop (JStr s) = JNum (real (length s))"
| "length_prop (JArr xs) = JNum (real (length xs))"
| "length_prop (JObj kvs) = (case map_of kvs ''length'' of None \<Rightarrow> JUndefined | Some v \<Rightarrow> v)"
| "length_prop v = JUndefined"

section \<open>Strings\<close>

text \<open>
  The characters of the model are the code units below 256. \<open>toLowerCase\<close> maps the
  capital letters among them to the small ones: A to Z, and the accented capitals
  0xC0 to 0xDE but for the multiplication sign 0xD7. Every other character is kept.
\<close>

definition capital_letters :: string where
  "capital_letters =
     ''ABCDEFGHIJKLMNOPQRSTUVWXYZ'' @
     [CHR 0xC0, CHR 0xC1, CHR 0xC2, CHR 0xC3, CHR 0xC4, CHR 0xC5, CHR 0xC6, CHR 0xC7,
      CHR 0xC8, CHR 0xC9, CHR 0xCA, CHR 0xCB, CHR 0xCC, CHR 0xCD, CHR 0xCE, CHR 0xCF,
      CHR 0xD0, CHR 0xD1, CHR 0xD2, CHR 0xD3, CHR 0xD4, CHR 0xD5, CHR 0xD6, CHR 0xD8,
      CHR 0xD9, CHR 0xDA, CHR 0xDB, CHR 0xDC, CHR 0xDD, CHR 0xDE]"

definition small_letters :: string where
  "small_letters =
     ''abcdefghijklmnopqrstuvwxyz'' @
     [CHR 0xE0, CHR 0xE1, CHR 0xE2, CHR 0xE3, CHR 0xE4, CHR 0xE5, CHR 0xE6, CHR 0xE7,
      CHR 0xE8, CHR 0xE9, CHR 0xEA, CHR 0xEB, CHR 0xEC, CHR 0xED, CHR 0xEE, CHR 0xEF,
      CHR 0xF0, CHR 0xF1, CHR 0xF2, CHR 0xF3, CHR 0xF4, CHR 0xF5, CHR 0xF6, CHR 0xF8,
      CHR 0xF9, CHR 0xFA, CHR 0xFB, CHR 0xFC, CHR 0xFD, CHR 0xFE]"

definition toLowerCase_char :: "char \<Rightarrow> char" where
  "toLowerCase_char c =
     (case map_of (zip capital_letters small_letters) c of
        None \<Rightarrow> c
      | Some l \<Rightarrow> l)"

definition toLowerCase :: "string \<Rightarrow> string" where
  "toLowerCase s = map toLowerCase_char s"

text \<open>\<open>s.includes(k)\<close>: \<open>k\<close> occurs in \<open>s\<close> as a block of consecutive characters.\<close>

fun includes_str :: "string \<Rightarrow> string \<Rightarrow> bool" where
  "includes_str [] k = (k = [])"
| "includes_str (c # cs) k = (if prefix k (c # cs) then True else includes_str cs k)"

section \<open>The validation service\<close>

definition CRITICAL_KEYWORDS :: "string list" where
  "CRITICAL_KEYWORDS =
    [''trapped'', ''stuck'', ''can't move'', ''cannot move'', ''bleeding'', ''blood'',
     ''injured'', ''hurt'', ''pain'', ''fire'', ''smoke'', ''burning'', ''flames'',
     ''drowning'', ''water rising'', ''flood'', ''collapsed'', ''rubble'', ''debris'',
     ''unconscious'', ''not breathing'', ''chest pain'', ''help'', ''emergency'',
     ''urgent'', ''dying'', ''broken'', ''fracture'', ''severe'', ''earthquake'',
     ''aftershock'']"

definition HIGH_KEYWORDS :: "string list" where
  "HIGH_KEYWORDS =
    [''lost'', ''stranded'', ''alone'', ''cold'', ''freezing'', ''hypothermia'',
     ''dehydrated'', ''thirsty'', ''no water'', ''hungry'', ''no food'', ''scared'',
     ''afraid'', ''panic'', ''shelter'', ''nowhere to go'', ''supplies'', ''medication'',
     ''medicine'']"

text \<open>The analysis object: every field is a JavaScript value, \<open>JUndefined\<close> when absent.\<close>

record analysis =
  urgency :: jsval
  summary :: jsval
  eventType :: jsval
  injuryStatus :: jsval
  riskFactors :: jsval
  needs :: jsval
  confidence :: jsval

record validationFlags =
  hasKeywords :: bool
  meetsThreshold :: bool
  manualReview :: bool

record validationResult = validationFlags +
  hasCriticalKeywords :: bool
  hasHighKeywords :: bool
  adjustedUrgency :: jsval
  validationPassed :: bool
  warnings :: "string list"

text \<open>
  The literal \<open>0.6\<close> of the source is a double: the one nearest to 3/5, which is
  5404319552844595 / 2^53 and lies below 3/5. (The other numeric literals of the
  source, \<open>0.5\<close>, \<open>0.0\<close>, 90 and 180, are doubles exactly.)
\<close>

definition double_0_6 :: real where
  "double_0_6 = 5404319552844595 / 9007199254740992"

text \<open>\<open>KEYWORDS.some((keyword) => transcriptLower.includes(keyword.toLowerCase()))\<close>\<close>

definition matches_any :: "string list \<Rightarrow> string \<Rightarrow> bool" where
  "matches_any keywords transcriptLower =
     list_ex (\<lambda>keyword. includes_str transcriptLower (toLowerCase keyword)) keywords"

definition generateWarnings :: "analysis \<Rightarrow> bool \<Rightarrow> bool \<Rightarrow> string list" where
  "generateWarnings aiAnalysis hasCritical meets =
     (let warnings = [];
          warnings = (if meets then warnings
                      else warnings @ [''Low confidence in AI analysis'']);
          warnings = (if hasCritical \<and> urgency aiAnalysis \<noteq> JStr ''CRITICAL''
                      then warnings @
                        [''Critical keywords detected but urgency not marked as CRITICAL'']
                      else warnings);
          warnings = (if falsy (eventType aiAnalysis) \<or> eventType aiAnalysis = JStr ''Unknown''
                      then warnings @ [''Unable to determine event type'']
                      else warnings);
          warnings = (if falsy (needs aiAnalysis) \<or> length_prop (needs aiAnalysis) = JNum 0
                      then warnings @ [''No specific needs identified'']
                      else warnings)
      in warnings)"

definition validateAIAnalysis :: "coercion \<Rightarrow> analysis \<Rightarrow> string \<Rightarrow> validationResult" where
  "validateAIAnalysis conv aiAnalysis transcript =
    (let transcriptLower = toLowerCase transcript;
         hasCriticalKeywords = matches_any CRITICAL_KEYWORDS transcriptLower;
         hasHighKeywords = matches_any HIGH_KEYWORDS transcriptLower;
         meetsThreshold = js_ge conv (confidence aiAnalysis) double_0_6;
         manualReview = False;
         adjustedUrgency = urgency aiAnalysis;
         (adjustedUrgency, manualReview) =
           (if hasCriticalKeywords \<and>
               (urgency aiAnalysis = JStr ''LOW'' \<or> urgency aiAnalysis = JStr ''MEDIUM'')
            then (JStr ''CRITICAL'', True)
            else (adjustedUrgency, manualReview));
         manualReview =
           (if js_lt conv (confidence aiAnalysis) 0.5 then True else manualReview);
         manualReview =
           (if falsy (eventType aiAnalysis) \<or> eventType aiAnalysis = JStr ''Unknown''
            then True else manualReview)
     in \<lparr> hasKeywords = (hasCriticalKeywords \<or> hasHighKeywords),
          meetsThreshold = meetsThreshold,
          manualReview = manualReview,
          hasCriticalKeywords = hasCriticalKeywords,
          hasHighKeywords = hasHighKeywords,
          adjustedUrgency = adjustedUrgency,
          validationPassed = True,
          warnings = generateWarnings aiAnalysis hasCriticalKeywords meetsThreshold \<rparr>)"

section \<open>Validation of an intake request\<close>

text \<open>\<open>v.k\<close> where \<open>v\<close> is known to be neither \<open>undefined\<close> nor \<open>null\<close>.\<close>

definition field :: "jsval \<Rightarrow> string \<Rightarrow> jsval" where
  "field v k = (case get_prop v k of None \<Rightarrow> JUndefined | Some x \<Rightarrow> x)"

record sosData =
  sessionId :: jsval
  sosType :: jsval
  location :: jsval

record validation =
  isValid :: bool
  errors :: "string list"

definition validTypes :: "string list" where
  "validTypes = [''voice'', ''text'', ''photo'']"

definition validateSOSData :: "coercion \<Rightarrow> 'a sosData_scheme \<Rightarrow> validation" where
  "validateSOSData conv sosData =
    (let errors = [];
         errors = (if falsy (sessionId sosData)
                   then errors @ [''Session ID is required''] else errors);
         errors = (if falsy (sosType sosData)
                   then errors @ [''SOS type is required''] else errors);
         errors = (if falsy (location sosData) \<or>
                      falsy (field (location sosData) ''latitude'') \<or>
                      falsy (field (location sosData) ''longitude'')
                   then errors @ [''Location data is required''] else errors);
         errors = (if truthy (location sosData)
                   then (let latitude = field (location sosData) ''latitude'';
                             longitude = field (location sosData) ''longitude'';
                             errors = (if js_lt conv latitude (- 90) \<or> js_gt conv latitude 90
                                       then errors @ [''Invalid latitude value''] else errors);
                             errors = (if js_lt conv longitude (- 180) \<or> js_gt conv longitude 180
                                       then errors @ [''Invalid longitude value''] else errors)
                         in errors)
                   else errors);
         errors = (if truthy (sosType sosData) \<and> sosType sosData \<notin> set (map JStr validTypes)
                   then errors @ [''Invalid SOS type. Must be one of: voice, text, photo'']
                   else errors)
     in \<lparr> isValid = (errors = []), errors = errors \<rparr>)"

section \<open>Errors\<close>

text \<open>
  A thrown JavaScript error with the properties the code reads: \<open>error.code\<close>,
  \<open>error.status\<close> and \<open>error.message\<close>. \<open>Error msg\<close> is \<open>new Error(msg)\<close>. The
  message of an error thrown by the runtime itself is the engine's; the model fixes one.
\<close>

record js_error =
  err_code :: "string option"
  err_status :: "nat option"
  err_message :: string

definition Error :: "string \<Rightarrow> js_error" where
  "Error msg = \<lparr> err_code = None, err_status = None, err_message = msg \<rparr>"

definition TypeError :: js_error where
  "TypeError = Error ''TypeError: cannot read properties''"

definition SyntaxError :: js_error where
  "SyntaxError = Error ''SyntaxError: not valid JSON''"

section \<open>The structured analysis service\<close>

text \<open>
  The two collaborators of \<open>analyzeSOSContent\<close> are parameters: \<open>JSON.parse\<close> (\<open>None\<close>
  when it throws) and the chat completion call, which answers the prompt built from the
  transcript and the metadata with an error or with the message contents of its choices
  (\<open>None\<close> is a \<open>null\<close> content).
\<close>

type_synonym json_parser = "string \<Rightarrow> jsval option"

type_synonym chat_service = "string \<Rightarrow> jsval \<Rightarrow> js_error + string option list"

text \<open>The record returned when the analysis fails.\<close>

definition degraded :: analysis where
  "degraded =
     \<lparr> urgency = JStr ''HIGH'',
       summary = JStr ''AI analysis failed - requires manual review'',
       eventType = JStr ''Unknown'',
       injuryStatus = JStr ''Unknown'',
       riskFactors = JArr [JStr ''AI processing error''],
       needs = JArr [JStr ''Manual review required''],
       confidence = JNum 0 \<rparr>"

fun isArray :: "jsval \<Rightarrow> bool" where
  "isArray (JArr xs) = True"
| "isArray v = False"

text \<open>A default parameter replaces \<open>undefined\<close> only.\<close>

definition with_default :: "jsval \<Rightarrow> jsval \<Rightarrow> jsval" where
  "with_default v d = (if v = JUndefined then d else v)"

text \<open>
  The part of the \<open>try\<close> block after the call: the content of the first choice is
  parsed, the structure of the result is checked, and the record is built with a default
  for every missing field.
\<close>

definition read_response :: "json_parser \<Rightarrow> string option list \<Rightarrow> js_error + analysis" where
  "read_response JSON_parse choices =
    (case choices of
       [] \<Rightarrow> Inl TypeError
     | content # _ \<Rightarrow>
        (case JSON_parse (case content of None \<Rightarrow> ''null'' | Some c \<Rightarrow> c) of
           None \<Rightarrow> Inl SyntaxError
         | Some analysis \<Rightarrow>
            (case get_prop analysis ''urgency'' of
               None \<Rightarrow> Inl TypeError
             | Some _ \<Rightarrow>
                if falsy (field analysis ''urgency'') \<or> falsy (field analysis ''summary'')
                then Inl (Error ''Invalid AI response structure'')
                else Inr
                  \<lparr> urgency = js_or (field analysis ''urgency'') (JStr ''MEDIUM''),
                    summary = js_or (field analysis ''summary'')
                                (JStr ''Unable to generate summary''),
                    eventType = js_or (field analysis ''eventType'') (JStr ''Unknown''),
                    injuryStatus = js_or (field analysis ''injuryStatus'') (JStr ''Unknown''),
                    riskFactors =
                      (if isArray (field analysis ''riskFactors'')
                       then field analysis ''riskFactors'' else JArr []),
                    needs =
                      (if isArray (field analysis ''needs'')
                       then field analysis ''needs'' else JArr []),
                    confidence = js_or (field analysis ''confidence'') (JNum 0.5) \<rparr>)))"

text \<open>
  The body of the \<open>try\<close> block, with the default parameter \<open>metadata = {}\<close>. Building
  the prompt reads \<open>metadata.receivedAt\<close>, which throws when the metadata is \<open>null\<close>.
\<close>

definition analyzeSOSContent_try ::
  "json_parser \<Rightarrow> chat_service \<Rightarrow> string \<Rightarrow> jsval \<Rightarrow> js_error + analysis" where
  "analyzeSOSContent_try JSON_parse create transcript metadata0 =
    (let metadata = with_default metadata0 (JObj []) in
     case get_prop metadata ''receivedAt'' of
       None \<Rightarrow> Inl TypeError
     | Some _ \<Rightarrow>
        (case create transcript metadata of
           Inl error \<Rightarrow> Inl error
         | Inr response \<Rightarrow> read_response JSON_parse response))"

text \<open>The \<open>catch\<close> block: \<open>Inl\<close> is the error the function throws.\<close>

definition analyzeSOSContent ::
  "json_parser \<Rightarrow> chat_service \<Rightarrow> string \<Rightarrow> jsval \<Rightarrow> js_error + analysis" where
  "analyzeSOSContent JSON_parse create transcript metadata =
    (case analyzeSOSContent_try JSON_parse create transcript metadata of
       Inr result \<Rightarrow> Inr result
     | Inl error \<Rightarrow>
        if err_status error = Some 401 then Inl (Error ''Invalid OpenAI API key'')
        else Inr degraded)"

definition analyzeTextSOS ::
  "json_parser \<Rightarrow> chat_service \<Rightarrow> string \<Rightarrow> jsval \<Rightarrow> js_error + analysis" where
  "analyzeTextSOS JSON_parse create textMessage metadata =
     analyzeSOSContent JSON_parse create textMessage metadata"

section \<open>The transcription service\<close>

text \<open>
  \<open>existsSync\<close> and the transcription call (an error, or the text of the response) are
  parameters.
\<close>

type_synonym whisper_service = "string \<Rightarrow> js_error + string"

definition transcribeAudio ::
  "(string \<Rightarrow> bool) \<Rightarrow> whisper_service \<Rightarrow> string \<Rightarrow> js_error + string" where
  "transcribeAudio existsSync transcribe audioFilePath =
    (case (if existsSync audioFilePath then transcribe audioFilePath
           else Inl (Error (''Audio file not found: '' @ audioFilePath))) of
       Inr text \<Rightarrow> Inr text
     | Inl error \<Rightarrow>
        if err_code error = Some ''ENOENT'' then Inl (Error ''Audio file not found'')
        else if err_status error = Some 401 then Inl (Error ''Invalid OpenAI API key'')
        else if err_status error = Some 413
          then Inl (Error ''Audio file too large (max 25MB)'')
        else Inl (Error (''Transcription failed: '' @ err_message error)))"

section \<open>The collection of cases\<close>

text \<open>
  A document of the \<open>SOS\<close> collection, with the fields the controller writes. It extends
  the intake data. \<open>aiAnalysis\<close> and \<open>validationFlags\<close> are \<open>None\<close> as long as the
  document holds only the defaults of the schema there (among them the urgency
  \<open>MEDIUM\<close>). Times are numbers. The collection is the list of its documents in the
  order of their creation. The store is taken to be reachable: reading a document and
  writing texts, flags and times do not fail.
\<close>

record sos = sosData +
  sos_id :: nat
  voiceFileUrl :: "string option"
  textMessage :: "string option"
  transcript :: "string option"
  aiAnalysis :: "analysis option"
  validationFlags :: "validationFlags option"
  status :: string
  processingErrors :: "string list"
  receivedAt :: nat
  processedAt :: "nat option"

type_synonym collection = "sos list"

text \<open>
  The store casts what it writes to the types of the schema, and throws when a value
  cannot be cast or a validator of the schema refuses it. What it makes of the values
  that come from outside is a parameter: for the session identifier and the location of
  a new document, and for the analysis of an update, the values as stored, or \<open>None\<close>
  when the store throws. The messages of these errors are the store's; the model fixes
  one for each.
\<close>

type_synonym intake_cast = "jsval \<Rightarrow> jsval \<Rightarrow> (jsval \<times> jsval) option"

type_synonym analysis_cast = "analysis \<Rightarrow> analysis option"

definition ValidationError :: js_error where
  "ValidationError = Error ''SOS validation failed''"

definition CastError :: js_error where
  "CastError = Error ''Cast failed''"

text \<open>
  \<open>SOS.create\<close>: the new document, cast to the schema, gets an identifier no other
  document has.
\<close>

definition SOS_create ::
  "intake_cast \<Rightarrow> collection \<Rightarrow> sos \<Rightarrow> js_error + collection \<times> sos" where
  "SOS_create cast db doc =
    (case cast (sessionId doc) (location doc) of
       None \<Rightarrow> Inl ValidationError
     | Some (sessionId0, location0) \<Rightarrow>
        (let sos = doc\<lparr> sessionId := sessionId0, location := location0,
                         sos_id := length db \<rparr>
         in Inr (db @ [sos], sos)))"

definition findById :: "collection \<Rightarrow> nat \<Rightarrow> sos option" where
  "findById db i = find (\<lambda>c. sos_id c = i) db"

definition findByIdAndUpdate :: "collection \<Rightarrow> nat \<Rightarrow> (sos \<Rightarrow> sos) \<Rightarrow> collection" where
  "findByIdAndUpdate db i update = map (\<lambda>c. if sos_id c = i then update c else c) db"

text \<open>
  The identifiers of a collection that \<open>SOS_create\<close> has built: each is below the
  number of documents, so that the identifier of a new document is not in use.
\<close>

definition ids_in_use :: "collection \<Rightarrow> bool" where
  "ids_in_use db = list_all (\<lambda>c. sos_id c < length db) db"

text \<open>The urgency stored in a document: the schema's default before an analysis is written.\<close>

definition stored_urgency :: "sos \<Rightarrow> jsval" where
  "stored_urgency c = (case aiAnalysis c of None \<Rightarrow> JStr ''MEDIUM'' | Some a \<Rightarrow> urgency a)"

section \<open>The controller\<close>

text \<open>The collaborators of the controller, gathered.\<close>

record runtime =
  toNumber :: coercion
  parseJSON :: json_parser
  existsSync :: "string \<Rightarrow> bool"
  whisper :: whisper_service
  chat :: chat_service
  castIntake :: intake_cast
  castAnalysis :: analysis_cast

text \<open>The stages of the pipeline, to record which of them a run has invoked.\<close>

datatype stage = Transcription | Analysis | Validation

text \<open>The metadata passed to the analysis: \<open>{ receivedAt, location }\<close>.\<close>

definition metadata_obj :: "nat \<Rightarrow> jsval \<Rightarrow> jsval" where
  "metadata_obj received loc =
     JObj [(''receivedAt'', JNum (real received)), (''location'', loc)]"

text \<open>
  The last update of a successful run, shared by the voice and the text path, with the
  analysis as the store has cast it.
\<close>

definition final_update :: "analysis \<Rightarrow> validationResult \<Rightarrow> nat \<Rightarrow> sos \<Rightarrow> sos" where
  "final_update stored validationResult now c =
     c\<lparr> aiAnalysis := Some stored,
        validationFlags := Some \<lparr> hasKeywords = hasKeywords validationResult,
                                  meetsThreshold = meetsThreshold validationResult,
                                  manualReview = manualReview validationResult \<rparr>,
        status := ''processed'',
        processedAt := Some now \<rparr>"

text \<open>
  \<open>processVoiceSOS\<close>: the collection after the run, and the stages the run invoked.
  \<open>now\<close> is the time of the final update.
\<close>

definition processVoiceSOS ::
  "runtime \<Rightarrow> nat \<Rightarrow> nat \<Rightarrow> string \<Rightarrow> collection \<Rightarrow> collection \<times> stage list" where
  "processVoiceSOS rt now sosId audioFilePath db =
    (let failed = (\<lambda>db error. findByIdAndUpdate db sosId
                     (\<lambda>c. c\<lparr> status := ''failed'', processingErrors := [err_message error] \<rparr>))
     in
     case transcribeAudio (existsSync rt) (whisper rt) audioFilePath of
       Inl error \<Rightarrow> (failed db error, [Transcription])
     | Inr text \<Rightarrow>
        (let db = findByIdAndUpdate db sosId
                    (\<lambda>c. c\<lparr> transcript := Some text, status := ''processing'' \<rparr>)
         in
         case findById db sosId of
           None \<Rightarrow> (failed db TypeError, [Transcription])
         | Some sos \<Rightarrow>
            (case analyzeSOSContent (parseJSON rt) (chat rt) text
                    (metadata_obj (receivedAt sos) (location sos)) of
               Inl error \<Rightarrow> (failed db error, [Transcription, Analysis])
             | Inr ai \<Rightarrow>
                (let validationResult = validateAIAnalysis (toNumber rt) ai text in
                 case castAnalysis rt (ai\<lparr> urgency := adjustedUrgency validationResult \<rparr>) of
                   None \<Rightarrow> (failed db CastError, [Transcription, Analysis, Validation])
                 | Some stored \<Rightarrow>
                    (findByIdAndUpdate db sosId (final_update stored validationResult now),
                     [Transcription, Analysis, Validation])))))"

text \<open>The responses of the intake handlers.\<close>

datatype response =
    Created nat string string
  | BadRequest_errors "string list"
  | BadRequest_error string
  | ServerError string

text \<open>
  \<open>message.trim()\<close>: white space is removed at both ends. Among the characters of
  the model these are the space, the control characters from tab to carriage return,
  and the no-break space.
\<close>

definition is_space :: "char \<Rightarrow> bool" where
  "is_space c =
     (c \<in> set [CHR '' '', CHR 0x09, CHR 0x0A, CHR 0x0B, CHR 0x0C, CHR 0x0D, CHR 0xA0])"

definition trim :: "string \<Rightarrow> string" where
  "trim s = rev (dropWhile is_space (rev (dropWhile is_space s)))"

text \<open>
  \<open>createTextSOS\<close>, with the fields of the request body and the time of the request: the
  collection afterwards, the response, and the stages invoked.
\<close>

definition createTextSOS ::
  "runtime \<Rightarrow> nat \<Rightarrow> jsval \<Rightarrow> jsval \<Rightarrow> jsval \<Rightarrow> collection
     \<Rightarrow> collection \<times> response \<times> stage list" where
  "createTextSOS rt now sessionId0 location0 message db =
    (let validation = validateSOSData (toNumber rt)
           \<lparr> sessionId = sessionId0, sosType = JStr ''text'', location = location0 \<rparr>
     in
     if \<not> isValid validation then (db, BadRequest_errors (errors validation), [])
     else if falsy message then (db, BadRequest_error ''Message text is required'', [])
     else case message of
       JStr text \<Rightarrow>
        if length (trim text) = 0
        then (db, BadRequest_error ''Message text is required'', [])
        else
         (case SOS_create (castIntake rt) db
                \<lparr> sessionId = sessionId0, sosType = JStr ''text'', location = location0,
                  sos_id = 0, voiceFileUrl = None, textMessage = Some text,
                  transcript = Some text, aiAnalysis = None, validationFlags = None,
                  status = ''processing'', processingErrors = [],
                  receivedAt = now, processedAt = None \<rparr> of
            Inl error \<Rightarrow> (db, ServerError ''Failed to process text SOS'', [])
          | Inr (db, sos) \<Rightarrow>
             (case analyzeTextSOS (parseJSON rt) (chat rt) text
                     (metadata_obj (receivedAt sos) location0) of
                Inl error \<Rightarrow> (db, ServerError ''Failed to process text SOS'', [Analysis])
              | Inr ai \<Rightarrow>
                 (let validationResult = validateAIAnalysis (toNumber rt) ai text in
                  case castAnalysis rt (ai\<lparr> urgency := adjustedUrgency validationResult \<rparr>) of
                    None \<Rightarrow>
                     (db, ServerError ''Failed to process text SOS'', [Analysis, Validation])
                  | Some stored \<Rightarrow>
                     (findByIdAndUpdate db (sos_id sos)
                        (final_update stored validationResult now),
                      Created (sos_id sos) ''Text SOS processed'' ''processed'',
                      [Analysis, Validation]))))
     | _ \<Rightarrow> (db, ServerError ''Failed to process text SOS'', []))"

text \<open>
  \<open>createVoiceSOS\<close>, with the session identifier, the \<open>location\<close> field of the form (a
  string, \<open>None\<close> when absent) and the path of the uploaded file (\<open>None\<close> when there is
  none): the collection, the response, and the background run it starts, if any.
\<close>

definition createVoiceSOS ::
  "runtime \<Rightarrow> nat \<Rightarrow> jsval \<Rightarrow> string option \<Rightarrow> string option \<Rightarrow> collection
     \<Rightarrow> collection \<times> response \<times> (nat \<times> string) option" where
  "createVoiceSOS rt now sessionId0 location0 audioFile db =
    (case audioFile of
       None \<Rightarrow> (db, BadRequest_error ''Audio file is required'', None)
     | Some path \<Rightarrow>
        (case (case location0 of None \<Rightarrow> None | Some l \<Rightarrow> parseJSON rt l) of
           None \<Rightarrow> (db, ServerError ''Failed to process voice SOS'', None)
         | Some loc \<Rightarrow>
            (let validation = validateSOSData (toNumber rt)
                   \<lparr> sessionId = sessionId0, sosType = JStr ''voice'', location = loc \<rparr>
             in
             if \<not> isValid validation then (db, BadRequest_errors (errors validation), None)
             else
              (case SOS_create (castIntake rt) db
                     \<lparr> sessionId = sessionId0, sosType = JStr ''voice'', location = loc,
                       sos_id = 0, voiceFileUrl = Some path, textMessage = None,
                       transcript = None, aiAnalysis = None, validationFlags = None,
                       status = ''processing'', processingErrors = [],
                       receivedAt = now, processedAt = None \<rparr> of
                 Inl error \<Rightarrow> (db, ServerError ''Failed to process voice SOS'', None)
               | Inr (db, sos) \<Rightarrow>
                  (db, Created (sos_id sos) ''SOS received and being processed'' ''processing'',
                   Some (sos_id sos, path))))))"

section \<open>The listing of cases\<close>

text \<open>
  The store sorts by comparing values: a value of one type before or after every value of
  another (\<open>null\<close> and a missing value first, then numbers, strings, objects, arrays,
  booleans), numbers by value, strings by their characters' codes; the model orders
  objects, arrays and booleans no further.
\<close>

fun type_order :: "jsval \<Rightarrow> nat" where
  "type_order JUndefined = 0"
| "type_order JNull = 0"
| "type_order (JNum r) = 1"
| "type_order JNaN = 1"
| "type_order (JStr s) = 2"
| "type_order (JObj kvs) = 3"
| "type_order (JArr xs) = 4"
| "type_order (JBool b) = 5"

fun string_less :: "string \<Rightarrow> string \<Rightarrow> bool" where
  "string_less [] [] = False"
| "string_less [] (y # ys) = True"
| "string_less (x # xs) [] = False"
| "string_less (x # xs) (y # ys) =
     ((of_char x :: nat) < of_char y \<or> (x = y \<and> string_less xs ys))"

fun value_less :: "jsval \<Rightarrow> jsval \<Rightarrow> bool" where
  "value_less (JStr s) (JStr t) = string_less s t"
| "value_less (JNum x) (JNum y) = (x < y)"
| "value_less JNaN (JNum y) = True"
| "value_less v w = (type_order v < type_order w)"

text \<open>\<open>sort({ "aiAnalysis.urgency": -1, receivedAt: -1 })\<close>: \<open>a\<close> comes before \<open>b\<close>.\<close>

definition sorts_before :: "sos \<Rightarrow> sos \<Rightarrow> bool" where
  "sorts_before a b =
     (value_less (stored_urgency b) (stored_urgency a) \<or>
      (stored_urgency a = stored_urgency b \<and> receivedAt b < receivedAt a))"

fun insert_sorted :: "sos \<Rightarrow> sos list \<Rightarrow> sos list" where
  "insert_sorted x [] = [x]"
| "insert_sorted x (y # ys) =
     (if sorts_before y x then y # insert_sorted x ys else x # y # ys)"

fun sort_cases :: "sos list \<Rightarrow> sos list" where
  "sort_cases [] = []"
| "sort_cases (x # xs) = insert_sorted x (sort_cases xs)"

text \<open>
  \<open>getAllSOS\<close>: the \<open>data\<close> of the response, for the query parameters \<open>status\<close> and
  \<open>urgency\<close> (\<open>None\<close> when absent or empty) and the numbers \<open>limit\<close> and \<open>skip\<close>.
\<close>

definition getAllSOS ::
  "string option \<Rightarrow> string option \<Rightarrow> nat \<Rightarrow> nat \<Rightarrow> collection \<Rightarrow> sos list" where
  "getAllSOS status0 urgency0 limit skip db =
    (let matches = (\<lambda>c.
            (case status0 of None \<Rightarrow> True | Some s \<Rightarrow> status c = s) \<and>
            (case urgency0 of None \<Rightarrow> True | Some u \<Rightarrow> stored_urgency c = JStr u))
     in take limit (drop skip (sort_cases (filter matches db))))"

section \<open>Notions of the specification\<close>

text \<open>
  The specification's words for a keyword match: the keyword occurs in the text as a
  substring, up to the case of the letters.
\<close>

definition occurs_ignoring_case :: "string \<Rightarrow> string \<Rightarrow> bool" where
  "occurs_ignoring_case keyword rawText =
     (\<exists>pre w post. rawText = pre @ w @ post \<and> toLowerCase w = toLowerCase keyword)"

definition critical_keyword_occurs :: "string \<Rightarrow> bool" where
  "critical_keyword_occurs rawText =
     (\<exists>keyword \<in> set CRITICAL_KEYWORDS. occurs_ignoring_case keyword rawText)"

text \<open>
  The specification's words for the shape of the output of the analysis service: the
  seven fields, the urgency one of the four levels, summary, event type and injury status
  texts, risk factors and needs lists, the confidence a number from 0 to 1.
\<close>

fun is_text :: "jsval \<Rightarrow> bool" where
  "is_text (JStr s) = True"
| "is_text v = False"

fun is_score :: "jsval \<Rightarrow> bool" where
  "is_score (JNum c) = (0 \<le> c \<and> c \<le> 1)"
| "is_score v = False"

definition required_shape :: "jsval \<Rightarrow> bool" where
  "required_shape output =
     (field output ''urgency'' \<in> set (map JStr [''CRITICAL'', ''HIGH'', ''MEDIUM'', ''LOW'']) \<and>
      is_text (field output ''summary'') \<and>
      is_text (field output ''eventType'') \<and>
      is_text (field output ''injuryStatus'') \<and>
      isArray (field output ''riskFactors'') \<and>
      isArray (field output ''needs'') \<and>
      is_score (field output ''confidence''))"

text \<open>
  The specification's ordering of the urgency levels, \<open>LOW < MEDIUM < HIGH < CRITICAL\<close>;
  the code compares urgencies for equality only.
\<close>

definition urgency_rank :: "jsval \<Rightarrow> nat option" where
  "urgency_rank u =
     (if u = JStr ''LOW'' then Some 0
      else if u = JStr ''MEDIUM'' then Some 1
      else if u = JStr ''HIGH'' then Some 2
      else if u = JStr ''CRITICAL'' then Some 3
      else None)"

section \<open>Keyword matching and the results of the validation\<close>

lemma includes_str_iff: "includes_str s k \<longleftrightarrow> (\<exists>pre post. s = pre @ k @ post)"
proof (induction s)
  case Nil
  then show ?case by auto
next
  case (Cons c cs)
  show ?case
  proof
    assume "includes_str (c # cs) k"
    then consider "prefix k (c # cs)" | "includes_str cs k"
      by (auto split: if_splits)
    then show "\<exists>pre post. c # cs = pre @ k @ post"
    proof cases
      case 1
      then obtain post where "c # cs = k @ post" by (auto simp: prefix_def)
      then have "c # cs = [] @ k @ post" by simp
      then show ?thesis by blast
    next
      case 2
      with Cons.IH obtain pre post where "cs = pre @ k @ post" by blast
      then have "c # cs = (c # pre) @ k @ post" by simp
      then show ?thesis by blast
    qed
  next
    assume "\<exists>pre post. c # cs = pre @ k @ post"
    then obtain pre post where eq: "c # cs = pre @ k @ post" by blast
    show "includes_str (c # cs) k"
    proof (cases pre)
      case Nil
      with eq have "prefix k (c # cs)" by (simp add: prefix_def)
      then show ?thesis by simp
    next
      case (Cons p ps)
      with eq have "cs = ps @ k @ post" by simp
      with Cons.IH have "includes_str cs k" by blast
      then show ?thesis by simp
    qed
  qed
qed

lemma toLowerCase_append: "toLowerCase (a @ b) = toLowerCase a @ toLowerCase b"
  by (simp add: toLowerCase_def)

lemma map_eq_appendE:
  assumes "map f xs = ys @ zs"
  obtains us vs where "xs = us @ vs" and "map f us = ys" and "map f vs = zs"
proof -
  have "xs = take (length ys) xs @ drop (length ys) xs" by simp
  moreover have "map f (take (length ys) xs) = ys"
    using assms by (metis append_eq_conv_conj take_map)
  moreover have "map f (drop (length ys) xs) = zs"
    using assms by (metis append_eq_conv_conj drop_map)
  ultimately show ?thesis using that by blast
qed

lemma includes_lower_iff:
  "includes_str (toLowerCase t) (toLowerCase k) \<longleftrightarrow> occurs_ignoring_case k t"
proof
  assume "includes_str (toLowerCase t) (toLowerCase k)"
  then obtain pre post where "map toLowerCase_char t = pre @ (toLowerCase k @ post)"
    unfolding includes_str_iff toLowerCase_def by blast
  then obtain p r where t: "t = p @ r" and "map toLowerCase_char r = toLowerCase k @ post"
    by (rule map_eq_appendE)
  then obtain w q where r: "r = w @ q" and w: "map toLowerCase_char w = toLowerCase k"
    by (blast elim: map_eq_appendE)
  from t r have "t = p @ w @ q" by simp
  with w show "occurs_ignoring_case k t"
    unfolding occurs_ignoring_case_def toLowerCase_def by blast
next
  assume "occurs_ignoring_case k t"
  then obtain pre w post where "t = pre @ w @ post" and "toLowerCase w = toLowerCase k"
    unfolding occurs_ignoring_case_def by blast
  then have "toLowerCase t = toLowerCase pre @ toLowerCase k @ toLowerCase post"
    by (simp add: toLowerCase_append)
  then show "includes_str (toLowerCase t) (toLowerCase k)"
    unfolding includes_str_iff by blast
qed

lemma matches_any_critical_iff:
  "matches_any CRITICAL_KEYWORDS (toLowerCase t) \<longleftrightarrow> critical_keyword_occurs t"
  by (simp add: matches_any_def critical_keyword_occurs_def list_ex_iff includes_lower_iff)

lemma adjustedUrgency_eq:
  "adjustedUrgency (validateAIAnalysis conv a t) =
     (if critical_keyword_occurs t \<and> (urgency a = JStr ''LOW'' \<or> urgency a = JStr ''MEDIUM'')
      then JStr ''CRITICAL'' else urgency a)"
  by (cases "urgency a = JStr ''LOW''"; cases "urgency a = JStr ''MEDIUM''";
      simp add: validateAIAnalysis_def Let_def matches_any_critical_iff)

lemma manualReview_eq:
  "manualReview (validateAIAnalysis conv a t) \<longleftrightarrow>
     (critical_keyword_occurs t \<and> (urgency a = JStr ''LOW'' \<or> urgency a = JStr ''MEDIUM''))
     \<or> js_lt conv (confidence a) 0.5
     \<or> (falsy (eventType a) \<or> eventType a = JStr ''Unknown'')"
  by (simp add: validateAIAnalysis_def Let_def matches_any_critical_iff)



lemma critical_keyword_occursI:
  assumes "keyword \<in> set CRITICAL_KEYWORDS" and "rawText = pre @ w @ post"
    and "toLowerCase w = toLowerCase keyword"
  shows "critical_keyword_occurs rawText"
  using assms unfolding critical_keyword_occurs_def occurs_ignoring_case_def by blast


lemma occurs_ignoring_case_length:
  assumes "occurs_ignoring_case keyword rawText"
  shows "length keyword \<le> length rawText"
proof -
  from assms obtain pre w post
    where t: "rawText = pre @ w @ post" and w: "toLowerCase w = toLowerCase keyword"
    unfolding occurs_ignoring_case_def by blast
  from w have "length w = length keyword"
    unfolding toLowerCase_def by (rule map_eq_imp_length_eq)
  with t show ?thesis by simp
qed

lemma short_text_no_keyword:
  assumes "length rawText < 4"
  shows "\<not> critical_keyword_occurs rawText"
proof
  assume "critical_keyword_occurs rawText"
  then obtain keyword where k: "keyword \<in> set CRITICAL_KEYWORDS"
    and "occurs_ignoring_case keyword rawText"
    unfolding critical_keyword_occurs_def by blast
  then have "length keyword \<le> length rawText" by (simp add: occurs_ignoring_case_length)
  moreover have "list_all (\<lambda>k. 4 \<le> length k) CRITICAL_KEYWORDS"
    by (simp add: CRITICAL_KEYWORDS_def)
  with k have "4 \<le> length keyword" by (simp add: list_all_iff)
  ultimately show False using assms by simp
qed

lemma no_keyword_in_ok: "\<not> critical_keyword_occurs ''ok''"
  by (rule short_text_no_keyword) simp


section \<open>The results of the analysis service\<close>

lemma Error_status [simp]: "err_status (Error msg) = None"
  by (simp add: Error_def)

lemma TypeError_status [simp]: "err_status TypeError = None"
  by (simp add: TypeError_def)

lemma SyntaxError_status [simp]: "err_status SyntaxError = None"
  by (simp add: SyntaxError_def)

lemma analyzeSOSContent_cases:
  "analyzeSOSContent JSON_parse create t metadata =
     (case analyzeSOSContent_try JSON_parse create t metadata of
        Inr result \<Rightarrow> Inr result
      | Inl error \<Rightarrow> if err_status error = Some 401 then Inl (Error ''Invalid OpenAI API key'')
                     else Inr degraded)"
  by (simp add: analyzeSOSContent_def)

lemma try_call_fails:
  assumes "create t (with_default metadata (JObj [])) = Inl error"
  shows "analyzeSOSContent_try JSON_parse create t metadata =
           (if metadata = JNull then Inl TypeError else Inl error)"
  using assms
  by (cases metadata) (simp_all add: analyzeSOSContent_try_def with_default_def Let_def)

lemma try_call_returns:
  assumes "create t (with_default metadata (JObj [])) = Inr choices"
  shows "analyzeSOSContent_try JSON_parse create t metadata =
           (if metadata = JNull then Inl TypeError else read_response JSON_parse choices)"
  using assms
  by (cases metadata) (simp_all add: analyzeSOSContent_try_def with_default_def Let_def)

lemma read_response_status:
  "read_response JSON_parse choices = Inl e \<Longrightarrow> err_status e = None"
  by (auto simp add: read_response_def split: list.splits option.splits if_splits)

lemma read_response_bad:
  assumes "choices = [] \<or>
         (\<exists>content rest. choices = content # rest \<and>
            (case JSON_parse (case content of None \<Rightarrow> ''null'' | Some c \<Rightarrow> c) of
               None \<Rightarrow> True
             | Some analysis \<Rightarrow>
                 falsy (field analysis ''urgency'') \<or> falsy (field analysis ''summary'')))"
  shows "\<exists>e. read_response JSON_parse choices = Inl e"
  using assms
proof
  assume "choices = []"
  then show ?thesis by (simp add: read_response_def)
next
  assume "\<exists>content rest. choices = content # rest \<and>
            (case JSON_parse (case content of None \<Rightarrow> ''null'' | Some c \<Rightarrow> c) of
               None \<Rightarrow> True
             | Some analysis \<Rightarrow>
                 falsy (field analysis ''urgency'') \<or> falsy (field analysis ''summary''))"
  then obtain content rest where c: "choices = content # rest"
    and bad: "case JSON_parse (case content of None \<Rightarrow> ''null'' | Some c \<Rightarrow> c) of
               None \<Rightarrow> True
             | Some analysis \<Rightarrow>
                 falsy (field analysis ''urgency'') \<or> falsy (field analysis ''summary'')"
    by blast
  show ?thesis
  proof (cases "JSON_parse (case content of None \<Rightarrow> ''null'' | Some c \<Rightarrow> c)")
    case None
    with c show ?thesis by (simp add: read_response_def)
  next
    case (Some analysis)
    with bad have "falsy (field analysis ''urgency'') \<or> falsy (field analysis ''summary'')"
      by simp
    with c Some show ?thesis
      by (cases "get_prop analysis ''urgency''") (simp_all add: read_response_def)
  qed
qed

lemma call_fails_degraded:
  assumes "create t (with_default metadata (JObj [])) = Inl error"
    and "err_status error \<noteq> Some 401"
  shows "analyzeSOSContent JSON_parse create t metadata = Inr degraded"
  using assms by (simp add: analyzeSOSContent_cases try_call_fails)

lemma call_fails_401:
  assumes "create t (with_default metadata (JObj [])) = Inl error"
    and "err_status error = Some 401" and "metadata \<noteq> JNull"
  shows "analyzeSOSContent JSON_parse create t metadata = Inl (Error ''Invalid OpenAI API key'')"
  using assms by (simp add: analyzeSOSContent_cases try_call_fails)

lemma bad_output_degraded:
  assumes "create t (with_default metadata (JObj [])) = Inr choices"
    and "choices = [] \<or>
         (\<exists>content rest. choices = content # rest \<and>
            (case JSON_parse (case content of None \<Rightarrow> ''null'' | Some c \<Rightarrow> c) of
               None \<Rightarrow> True
             | Some analysis \<Rightarrow>
                 falsy (field analysis ''urgency'') \<or> falsy (field analysis ''summary'')))"
  shows "analyzeSOSContent JSON_parse create t metadata = Inr degraded"
proof -
  from assms(2) obtain e where e: "read_response JSON_parse choices = Inl e"
    using read_response_bad by blast
  then have "err_status e = None" by (rule read_response_status)
  with e assms(1) show ?thesis
    by (simp add: analyzeSOSContent_cases try_call_returns)
qed

lemma truthy_field_get_prop:
  assumes "truthy (field v k)"
  shows "\<exists>x. get_prop v k' = Some x"
  using assms by (cases v) (simp_all add: field_def)

lemma read_response_ok:
  assumes "JSON_parse (case content of None \<Rightarrow> ''null'' | Some c \<Rightarrow> c) = Some j"
    and "truthy (field j ''urgency'')" and "truthy (field j ''summary'')"
  shows "read_response JSON_parse (content # rest) = Inr
     \<lparr> urgency = field j ''urgency'',
       summary = field j ''summary'',
       eventType = (if falsy (field j ''eventType'') then JStr ''Unknown''
                    else field j ''eventType''),
       injuryStatus = (if falsy (field j ''injuryStatus'') then JStr ''Unknown''
                       else field j ''injuryStatus''),
       riskFactors = (if isArray (field j ''riskFactors'') then field j ''riskFactors''
                      else JArr []),
       needs = (if isArray (field j ''needs'') then field j ''needs'' else JArr []),
       confidence = (if falsy (field j ''confidence'') then JNum 0.5
                     else field j ''confidence'') \<rparr>"
proof -
  from assms(2) obtain x where "get_prop j ''urgency'' = Some x"
    using truthy_field_get_prop by blast
  with assms show ?thesis by (simp add: read_response_def)
qed

section \<open>Intake validation, the text path and the listing\<close>

lemma validateSOSData_numbers:
  assumes "truthy sid" and "ty \<in> set (map JStr validTypes)"
    and "field loc ''latitude'' = JNum lat" and "field loc ''longitude'' = JNum lon"
    and "truthy loc"
  shows "isValid (validateSOSData conv \<lparr> sessionId = sid, sosType = ty, location = loc \<rparr>) \<longleftrightarrow>
           lat \<noteq> 0 \<and> lon \<noteq> 0 \<and> - 90 \<le> lat \<and> lat \<le> 90 \<and> - 180 \<le> lon \<and> lon \<le> 180"
proof -
  from assms(2) have "truthy ty" by (auto simp add: validTypes_def)
  with assms show ?thesis
    by (auto simp add: validateSOSData_def Let_def js_lt_def js_gt_def)
qed

lemma validateSOSData_rejects_latitude_120:
  "validateSOSData conv
     \<lparr> sessionId = JStr ''session-1'', sosType = JStr ''text'',
       location = JObj [(''latitude'', JNum 120), (''longitude'', JNum 77.6)] \<rparr>
   = \<lparr> isValid = False, errors = [''Invalid latitude value''] \<rparr>"
  by (simp add: validateSOSData_def Let_def field_def js_lt_def js_gt_def validTypes_def)

lemma createTextSOS_invalid:
  assumes "\<not> isValid (validateSOSData (toNumber rt)
              \<lparr> sessionId = sid, sosType = JStr ''text'', location = loc \<rparr>)"
  shows "createTextSOS rt now sid loc message db =
           (db, BadRequest_errors (errors (validateSOSData (toNumber rt)
              \<lparr> sessionId = sid, sosType = JStr ''text'', location = loc \<rparr>)), [])"
  using assms by (simp add: createTextSOS_def Let_def)


lemma analyzeSOSContent_401:
  assumes "chat0 t (JObj kvs) = Inl error" and "err_status error = Some 401"
  shows "analyzeSOSContent parse0 chat0 t (JObj kvs) = Inl (Error ''Invalid OpenAI API key'')"
  using assms by (simp add: call_fails_401 with_default_def)

lemma string_less_levels:
  "string_less ''CRITICAL'' ''HIGH''" "string_less ''HIGH'' ''LOW''"
  "string_less ''LOW'' ''MEDIUM''" "string_less ''CRITICAL'' ''MEDIUM''"
  "string_less ''CRITICAL'' ''LOW''" "string_less ''HIGH'' ''MEDIUM''"
  "\<not> string_less ''MEDIUM'' ''CRITICAL''" "\<not> string_less ''LOW'' ''CRITICAL''"
  "\<not> string_less ''HIGH'' ''CRITICAL''" "\<not> string_less ''MEDIUM'' ''LOW''"
  "\<not> string_less ''MEDIUM'' ''HIGH''" "\<not> string_less ''LOW'' ''HIGH''"
  by simp_all

lemma sorts_before_levels:
  assumes "stored_urgency a = JStr ''CRITICAL''" and "stored_urgency b = JStr ''HIGH''"
    and "stored_urgency c = JStr ''MEDIUM''" and "stored_urgency d = JStr ''LOW''"
  shows "sorts_before c d" "sorts_before d b" "sorts_before b a"
    "sorts_before c b" "sorts_before c a" "sorts_before d a"
    "\<not> sorts_before d c" "\<not> sorts_before b d" "\<not> sorts_before a b"
    "\<not> sorts_before b c" "\<not> sorts_before a c" "\<not> sorts_before a d"
  using assms by (simp_all add: sorts_before_def string_less_levels)

lemma listing_order:
  assumes "stored_urgency a = JStr ''CRITICAL''" and "stored_urgency b = JStr ''HIGH''"
    and "stored_urgency c = JStr ''MEDIUM''" and "stored_urgency d = JStr ''LOW''"
  shows "getAllSOS None None 100 0 [a, b, c, d] = [c, d, b, a]"
proof -
  note sb = sorts_before_levels [OF assms]
  have "sort_cases [d] = [d]" by simp
  then have "sort_cases [c, d] = [c, d]" using sb by simp
  then have "sort_cases [b, c, d] = [c, d, b]" using sb by simp
  then have "sort_cases [a, b, c, d] = [c, d, b, a]" using sb by simp
  then show ?thesis by (simp add: getAllSOS_def)
qed


section \<open>The voice path\<close>

lemma findById_update:
  assumes "findById db i = Some c" and "sos_id (f c) = i"
  shows "findById (findByIdAndUpdate db i f) i = Some (f c)"
  using assms unfolding findById_def findByIdAndUpdate_def
  by (induction db) (auto split: if_splits)

lemma find_append_new:
  assumes "find P xs = None" and "P c"
  shows "find P (xs @ [c]) = Some c"
  using assms by (induction xs) (auto split: if_splits)

lemma findById_new:
  assumes "ids_in_use db0" and "sos_id c = length db0"
  shows "findById (db0 @ [c]) (length db0) = Some c"
proof -
  have "find (\<lambda>x. sos_id x = length db0) db0 = None"
    using assms(1) by (auto simp add: find_None_iff ids_in_use_def list_all_iff)
  then show ?thesis
    unfolding findById_def using assms(2) by (rule find_append_new)
qed

lemma transcribeAudio_message:
  assumes "transcribeAudio exists0 service p = Inl error"
  shows "err_message error \<noteq> []"
  using assms
  by (auto simp add: transcribeAudio_def Error_def split: sum.splits if_splits)

lemma processVoiceSOS_transcription_fails:
  assumes "transcribeAudio (existsSync rt) (whisper rt) p = Inl error"
  shows "processVoiceSOS rt now i p db =
           (findByIdAndUpdate db i
              (\<lambda>c. c\<lparr> status := ''failed'', processingErrors := [err_message error] \<rparr>),
            [Transcription])"
  using assms by (simp add: processVoiceSOS_def)

lemma createVoiceSOS_started:
  assumes "createVoiceSOS rt now sid loc audio db0 = (db, rsp, Some (i, p))"
  shows "\<exists>c. db = db0 @ [c] \<and> i = length db0 \<and> sos_id c = length db0 \<and> audio = Some p \<and>
           status c = ''processing'' \<and> processingErrors c = [] \<and> transcript c = None \<and>
           aiAnalysis c = None \<and> validationFlags c = None"
  using assms
  by (auto simp add: createVoiceSOS_def SOS_create_def Let_def
      split: option.splits if_splits sum.splits prod.splits)


lemma findById_id:
  assumes "findById db i = Some c"
  shows "sos_id c = i"
  using assms unfolding findById_def by (auto simp add: find_Some_iff)

lemma processVoiceSOS_transcribed:
  assumes "findById db i = Some c"
    and "transcribeAudio (existsSync rt) (whisper rt) p = Inr text"
  shows "processVoiceSOS rt now i p db =
    (let db1 = findByIdAndUpdate db i
                 (\<lambda>c. c\<lparr> transcript := Some text, status := ''processing'' \<rparr>);
         c1 = c\<lparr> transcript := Some text, status := ''processing'' \<rparr>
     in case analyzeSOSContent (parseJSON rt) (chat rt) text
               (metadata_obj (receivedAt c1) (location c1)) of
          Inl error \<Rightarrow>
            (findByIdAndUpdate db1 i
               (\<lambda>c. c\<lparr> status := ''failed'', processingErrors := [err_message error] \<rparr>),
             [Transcription, Analysis])
        | Inr ai \<Rightarrow>
           (case castAnalysis rt
                   (ai\<lparr> urgency :=
                          adjustedUrgency (validateAIAnalysis (toNumber rt) ai text) \<rparr>) of
              None \<Rightarrow>
               (findByIdAndUpdate db1 i
                  (\<lambda>c. c\<lparr> status := ''failed'',
                           processingErrors := [err_message CastError] \<rparr>),
                [Transcription, Analysis, Validation])
            | Some stored \<Rightarrow>
               (findByIdAndUpdate db1 i
                  (final_update stored (validateAIAnalysis (toNumber rt) ai text) now),
                [Transcription, Analysis, Validation])))"
proof -
  have "sos_id c = i" using assms(1) by (rule findById_id)
  then have "findById (findByIdAndUpdate db i
                 (\<lambda>c. c\<lparr> transcript := Some text, status := ''processing'' \<rparr>)) i
        = Some (c\<lparr> transcript := Some text, status := ''processing'' \<rparr>)"
    using assms(1) by (simp add: findById_update)
  then show ?thesis
    using assms(2)
    by (simp add: processVoiceSOS_def Let_def split: sum.splits option.splits)
qed

lemma processVoiceSOS_outcome:
  assumes "findById db i = Some c"
  shows "(\<exists>error. transcribeAudio (existsSync rt) (whisper rt) p = Inl error \<and>
            snd (processVoiceSOS rt now i p db) = [Transcription] \<and>
            findById (fst (processVoiceSOS rt now i p db)) i =
              Some (c\<lparr> status := ''failed'', processingErrors := [err_message error] \<rparr>))
       \<or> (\<exists>text c'. transcribeAudio (existsSync rt) (whisper rt) p = Inr text \<and>
            findById (fst (processVoiceSOS rt now i p db)) i = Some c' \<and>
            transcript c' = Some text \<and>
            (status c' = ''failed'' \<and> processingErrors c' \<noteq> [] \<or> status c' = ''processed''))"
proof (cases "transcribeAudio (existsSync rt) (whisper rt) p")
  case (Inl err)
  have "sos_id c = i" using assms by (rule findById_id)
  with Inl assms show ?thesis
    by (simp add: processVoiceSOS_transcription_fails findById_update)
next
  case (Inr tr)
  let ?c1 = "c\<lparr> transcript := Some tr, status := ''processing'' \<rparr>"
  let ?db1 = "findByIdAndUpdate db i
                 (\<lambda>c. c\<lparr> transcript := Some tr, status := ''processing'' \<rparr>)"
  let ?v = "validateAIAnalysis (toNumber rt)"
  have i: "sos_id c = i" using assms by (rule findById_id)
  then have c1: "findById ?db1 i = Some ?c1" using assms by (simp add: findById_update)
  note run = processVoiceSOS_transcribed [OF assms Inr, of now, unfolded Let_def]
  show ?thesis
  proof (cases "analyzeSOSContent (parseJSON rt) (chat rt) tr
                  (metadata_obj (receivedAt ?c1) (location ?c1))")
    case (Inl err)
    with run have "processVoiceSOS rt now i p db =
        (findByIdAndUpdate ?db1 i
           (\<lambda>c. c\<lparr> status := ''failed'', processingErrors := [err_message err] \<rparr>),
         [Transcription, Analysis])"
      by simp
    with c1 i Inr show ?thesis by (simp add: findById_update)
  next
    case ai: (Inr ai)
    show ?thesis
    proof (cases "castAnalysis rt (ai\<lparr> urgency := adjustedUrgency (?v ai tr) \<rparr>)")
      case None
      with run ai have "processVoiceSOS rt now i p db =
          (findByIdAndUpdate ?db1 i
             (\<lambda>c. c\<lparr> status := ''failed'', processingErrors := [err_message CastError] \<rparr>),
           [Transcription, Analysis, Validation])"
        by simp
      with c1 i Inr show ?thesis by (simp add: findById_update)
    next
      case (Some stored)
      with run ai have "processVoiceSOS rt now i p db =
          (findByIdAndUpdate ?db1 i (final_update stored (?v ai tr) now),
           [Transcription, Analysis, Validation])"
        by simp
      with c1 i Inr show ?thesis by (simp add: findById_update final_update_def)
    qed
  qed
qed

section \<open>The claims\<close>

text \<open>
  Claim C1. If a keyword of the critical list occurs in the raw text, up to case, and the
  urgency of the analysis is LOW or MEDIUM, then \<open>validateAIAnalysis\<close> returns the
  adjusted urgency CRITICAL and asks for a manual review.
\<close>

theorem validateAIAnalysis_escalates:
  assumes "critical_keyword_occurs rawText"
    and "urgency a = JStr ''LOW'' \<or> urgency a = JStr ''MEDIUM''"
  shows "adjustedUrgency (validateAIAnalysis conv a rawText) = JStr ''CRITICAL'' \<and>
         manualReview (validateAIAnalysis conv a rawText)"
  using assms by (simp add: adjustedUrgency_eq manualReview_eq)

theorem validateAIAnalysis_escalates_witness:
  "critical_keyword_occurs ''Help, I am TRAPPED'' \<and>
   adjustedUrgency (validateAIAnalysis (\<lambda>v. None)
     \<lparr> urgency = JStr ''LOW'', summary = JStr ''asks for help'', eventType = JStr ''trapped'',
       injuryStatus = JStr ''none'', riskFactors = JArr [], needs = JArr [JStr ''rescue''],
       confidence = JNum 0.9 \<rparr> ''Help, I am TRAPPED'') = JStr ''CRITICAL'' \<and>
   manualReview (validateAIAnalysis (\<lambda>v. None)
     \<lparr> urgency = JStr ''LOW'', summary = JStr ''asks for help'', eventType = JStr ''trapped'',
       injuryStatus = JStr ''none'', riskFactors = JArr [], needs = JArr [JStr ''rescue''],
       confidence = JNum 0.9 \<rparr> ''Help, I am TRAPPED'')"
proof -
  have k: "critical_keyword_occurs ''Help, I am TRAPPED''"
    by (rule critical_keyword_occursI [where keyword = "''help''" and pre = "[]" and w = "''Help''"])
       (simp_all add: CRITICAL_KEYWORDS_def toLowerCase_def toLowerCase_char_def capital_letters_def small_letters_def)
  show ?thesis
    using k validateAIAnalysis_escalates [OF k, of
      "\<lparr> urgency = JStr ''LOW'', summary = JStr ''asks for help'', eventType = JStr ''trapped'',
         injuryStatus = JStr ''none'', riskFactors = JArr [], needs = JArr [JStr ''rescue''],
         confidence = JNum 0.9 \<rparr>" "\<lambda>v. None"]
    by simp
qed

text \<open>
  Claim C2. The adjusted urgency is the urgency of the analysis or CRITICAL. An urgency
  CRITICAL or HIGH is returned as it is, and so is every urgency when no critical
  keyword occurs in the text. Under the ordering LOW < MEDIUM < HIGH < CRITICAL the
  adjusted urgency is never below the urgency of the analysis.
\<close>

theorem validateAIAnalysis_never_lowers:
  "(adjustedUrgency (validateAIAnalysis conv a rawText) = urgency a \<or>
    adjustedUrgency (validateAIAnalysis conv a rawText) = JStr ''CRITICAL'') \<and>
   (urgency a = JStr ''CRITICAL'' \<or> urgency a = JStr ''HIGH'' \<longrightarrow>
      adjustedUrgency (validateAIAnalysis conv a rawText) = urgency a) \<and>
   (\<not> critical_keyword_occurs rawText \<longrightarrow>
      adjustedUrgency (validateAIAnalysis conv a rawText) = urgency a) \<and>
   (\<forall>m. urgency_rank (urgency a) = Some m \<longrightarrow>
      (\<exists>n. urgency_rank (adjustedUrgency (validateAIAnalysis conv a rawText)) = Some n \<and>
           m \<le> n))"
proof -
  let ?r = "adjustedUrgency (validateAIAnalysis conv a rawText)"
  have 1: "?r = urgency a \<or> ?r = JStr ''CRITICAL''"
    by (simp add: adjustedUrgency_eq)
  have 2: "urgency a = JStr ''CRITICAL'' \<or> urgency a = JStr ''HIGH'' \<longrightarrow> ?r = urgency a"
    by (auto simp add: adjustedUrgency_eq)
  have 3: "\<not> critical_keyword_occurs rawText \<longrightarrow> ?r = urgency a"
    by (simp add: adjustedUrgency_eq)
  have 4: "\<forall>m. urgency_rank (urgency a) = Some m \<longrightarrow>
            (\<exists>n. urgency_rank ?r = Some n \<and> m \<le> n)"
  proof (intro allI impI)
    fix m assume m: "urgency_rank (urgency a) = Some m"
    from 1 show "\<exists>n. urgency_rank ?r = Some n \<and> m \<le> n"
    proof
      assume "?r = urgency a"
      with m show ?thesis by simp
    next
      assume c: "?r = JStr ''CRITICAL''"
      have "urgency_rank (JStr ''CRITICAL'') = Some 3" by (simp add: urgency_rank_def)
      moreover from m have "m \<le> 3" by (auto simp: urgency_rank_def split: if_splits)
      ultimately show ?thesis using c by simp
    qed
  qed
  from 1 2 3 4 show ?thesis by blast
qed


theorem validateAIAnalysis_never_lowers_witness:
  "adjustedUrgency (validateAIAnalysis (\<lambda>v. None)
     \<lparr> urgency = JStr ''HIGH'', summary = JStr ''a fire'', eventType = JStr ''fire'',
       injuryStatus = JStr ''none'', riskFactors = JArr [], needs = JArr [JStr ''rescue''],
       confidence = JNum 0.9 \<rparr> ''fire'') = JStr ''HIGH'' \<and>
   \<not> critical_keyword_occurs ''ok'' \<and>
   adjustedUrgency (validateAIAnalysis (\<lambda>v. None)
     \<lparr> urgency = JStr ''LOW'', summary = JStr ''fine'', eventType = JStr ''none'',
       injuryStatus = JStr ''none'', riskFactors = JArr [], needs = JArr [],
       confidence = JNum 0.9 \<rparr> ''ok'') = JStr ''LOW'' \<and>
   (\<exists>n. urgency_rank (adjustedUrgency (validateAIAnalysis (\<lambda>v. None)
     \<lparr> urgency = JStr ''HIGH'', summary = JStr ''a fire'', eventType = JStr ''fire'',
       injuryStatus = JStr ''none'', riskFactors = JArr [], needs = JArr [JStr ''rescue''],
       confidence = JNum 0.9 \<rparr> ''fire'')) = Some n \<and> 2 \<le> n)"
proof -
  have r: "urgency_rank (JStr ''HIGH'') = Some 2" by (simp add: urgency_rank_def)
  show ?thesis
    using no_keyword_in_ok r
      validateAIAnalysis_never_lowers [where conv = "\<lambda>v. None" and rawText = "''fire''" and a =
        "\<lparr> urgency = JStr ''HIGH'', summary = JStr ''a fire'', eventType = JStr ''fire'',
           injuryStatus = JStr ''none'', riskFactors = JArr [], needs = JArr [JStr ''rescue''],
           confidence = JNum 0.9 \<rparr>"]
      validateAIAnalysis_never_lowers [where conv = "\<lambda>v. None" and rawText = "''ok''" and a =
        "\<lparr> urgency = JStr ''LOW'', summary = JStr ''fine'', eventType = JStr ''none'',
           injuryStatus = JStr ''none'', riskFactors = JArr [], needs = JArr [],
           confidence = JNum 0.9 \<rparr>"]
    by simp
qed

text \<open>
  Claim C3. \<open>validateAIAnalysis\<close> asks for a manual review exactly when a critical keyword
  occurs and the urgency is LOW or MEDIUM, or the confidence is below 0.5, or the event
  type is missing (a value that \<open>!\<close> takes for absent: \<open>undefined\<close>, \<open>null\<close>, the empty
  string) or \<open>Unknown\<close>. In particular a confidence below 0.5 asks for the review
  whatever the keywords.
\<close>

theorem manualReview_iff:
  "(manualReview (validateAIAnalysis conv a rawText) \<longleftrightarrow>
      (critical_keyword_occurs rawText \<and>
         (urgency a = JStr ''LOW'' \<or> urgency a = JStr ''MEDIUM'')) \<or>
      js_lt conv (confidence a) 0.5 \<or>
      (falsy (eventType a) \<or> eventType a = JStr ''Unknown'')) \<and>
   (\<forall>c. confidence a = JNum c \<and> c < 0.5 \<longrightarrow>
      manualReview (validateAIAnalysis conv a rawText))"
proof -
  have "\<forall>c. confidence a = JNum c \<and> c < 0.5 \<longrightarrow> js_lt conv (confidence a) 0.5"
    by (simp add: js_lt_def)
  then show ?thesis unfolding manualReview_eq by blast
qed

theorem manualReview_iff_witness:
  "\<not> critical_keyword_occurs ''ok'' \<and>
   manualReview (validateAIAnalysis (\<lambda>v. None)
     \<lparr> urgency = JStr ''HIGH'', summary = JStr ''unclear'', eventType = JStr ''storm'',
       injuryStatus = JStr ''none'', riskFactors = JArr [], needs = JArr [JStr ''shelter''],
       confidence = JNum 0.3 \<rparr> ''ok'')"
proof -
  have "(0.3 :: real) < 0.5" by simp
  then show ?thesis
    using no_keyword_in_ok
      manualReview_iff [where conv = "\<lambda>v. None" and rawText = "''ok''" and a =
        "\<lparr> urgency = JStr ''HIGH'', summary = JStr ''unclear'', eventType = JStr ''storm'',
           injuryStatus = JStr ''none'', riskFactors = JArr [], needs = JArr [JStr ''shelter''],
           confidence = JNum 0.3 \<rparr>"]
    by (simp add: js_lt_def)
qed





text \<open>
  Claim C4, as stated, fails: an output that cannot be read as the required shape is
  not always answered with the degraded record. The code checks that urgency and
  summary are present, nothing more. The output with urgency \<open>BANANA\<close>, the summary 7
  and no other field is returned with a default for each missing field, confidence 0.5
  among them.
\<close>

theorem analyzeSOSContent_shape_counterexample:
  "\<not> required_shape (JObj [(''urgency'', JStr ''BANANA''), (''summary'', JNum 7)]) \<and>
   analyzeSOSContent
     (\<lambda>s. Some (JObj [(''urgency'', JStr ''BANANA''), (''summary'', JNum 7)]))
     (\<lambda>t m. Inr [Some ''{}'']) ''I am lost'' (JObj [])
   = Inr \<lparr> urgency = JStr ''BANANA'', summary = JNum 7, eventType = JStr ''Unknown'',
           injuryStatus = JStr ''Unknown'', riskFactors = JArr [], needs = JArr [],
           confidence = JNum 0.5 \<rparr> \<and>
   analyzeSOSContent
     (\<lambda>s. Some (JObj [(''urgency'', JStr ''BANANA''), (''summary'', JNum 7)]))
     (\<lambda>t m. Inr [Some ''{}'']) ''I am lost'' (JObj [])
   \<noteq> Inr degraded"
proof -
  have "read_response
     (\<lambda>s. Some (JObj [(''urgency'', JStr ''BANANA''), (''summary'', JNum 7)]))
     [Some ''{}'']
   = Inr \<lparr> urgency = JStr ''BANANA'', summary = JNum 7, eventType = JStr ''Unknown'',
           injuryStatus = JStr ''Unknown'', riskFactors = JArr [], needs = JArr [],
           confidence = JNum 0.5 \<rparr>"
    by (simp add: read_response_def field_def)
  then show ?thesis
    by (simp add: analyzeSOSContent_cases try_call_returns required_shape_def field_def
        degraded_def)
qed

text \<open>
  Claim C4, amended. If the call of the analysis service fails with an error whose
  status is not 401, or the call returns no choice, or its content is not JSON, or the
  parsed value fails the check of the response structure (urgency or summary missing),
  then \<open>analyzeSOSContent\<close> returns the degraded record: urgency HIGH, confidence 0,
  event type \<open>Unknown\<close>, the need \<open>Manual review required\<close>, and a summary saying that
  the analysis failed. If the call fails with status 401, \<open>analyzeSOSContent\<close> throws.
  (With the metadata \<open>null\<close> the service is not called at all.)
\<close>

theorem analyzeSOSContent_failure:
  "(\<forall>error. create t (with_default metadata (JObj [])) = Inl error \<and>
        err_status error \<noteq> Some 401 \<longrightarrow>
      analyzeSOSContent JSON_parse create t metadata = Inr degraded) \<and>
   (\<forall>choices. create t (with_default metadata (JObj [])) = Inr choices \<and>
        (choices = [] \<or>
         (\<exists>content rest. choices = content # rest \<and>
            (case JSON_parse (case content of None \<Rightarrow> ''null'' | Some c \<Rightarrow> c) of
               None \<Rightarrow> True
             | Some analysis \<Rightarrow>
                 falsy (field analysis ''urgency'') \<or> falsy (field analysis ''summary'')))) \<longrightarrow>
      analyzeSOSContent JSON_parse create t metadata = Inr degraded) \<and>
   (\<forall>error. metadata \<noteq> JNull \<and> create t (with_default metadata (JObj [])) = Inl error \<and>
        err_status error = Some 401 \<longrightarrow>
      analyzeSOSContent JSON_parse create t metadata =
        Inl (Error ''Invalid OpenAI API key'')) \<and>
   urgency degraded = JStr ''HIGH'' \<and>
   confidence degraded = JNum 0 \<and>
   eventType degraded = JStr ''Unknown'' \<and>
   needs degraded = JArr [JStr ''Manual review required''] \<and>
   summary degraded = JStr ''AI analysis failed - requires manual review''"
proof -
  have a: "\<forall>error. create t (with_default metadata (JObj [])) = Inl error \<and>
        err_status error \<noteq> Some 401 \<longrightarrow>
      analyzeSOSContent JSON_parse create t metadata = Inr degraded"
    by (simp add: call_fails_degraded)
  have b: "\<forall>choices. create t (with_default metadata (JObj [])) = Inr choices \<and>
        (choices = [] \<or>
         (\<exists>content rest. choices = content # rest \<and>
            (case JSON_parse (case content of None \<Rightarrow> ''null'' | Some c \<Rightarrow> c) of
               None \<Rightarrow> True
             | Some analysis \<Rightarrow>
                 falsy (field analysis ''urgency'') \<or> falsy (field analysis ''summary'')))) \<longrightarrow>
      analyzeSOSContent JSON_parse create t metadata = Inr degraded"
    by (intro allI impI, elim conjE, rule bad_output_degraded)
  have c: "\<forall>error. metadata \<noteq> JNull \<and> create t (with_default metadata (JObj [])) = Inl error \<and>
        err_status error = Some 401 \<longrightarrow>
      analyzeSOSContent JSON_parse create t metadata =
        Inl (Error ''Invalid OpenAI API key'')"
    by (simp add: call_fails_401)
  have d: "urgency degraded = JStr ''HIGH'' \<and>
   confidence degraded = JNum 0 \<and>
   eventType degraded = JStr ''Unknown'' \<and>
   needs degraded = JArr [JStr ''Manual review required''] \<and>
   summary degraded = JStr ''AI analysis failed - requires manual review''"
    by (simp add: degraded_def)
  from a b c d show ?thesis by (intro conjI) simp_all
qed

theorem analyzeSOSContent_failure_witness:
  "analyzeSOSContent (\<lambda>s. None)
     (\<lambda>t m. Inl \<lparr> err_code = None, err_status = Some 500, err_message = ''server error'' \<rparr>)
     ''I am lost'' (JObj []) = Inr degraded \<and>
   analyzeSOSContent (\<lambda>s. None) (\<lambda>t m. Inr [Some ''not json''])
     ''I am lost'' (JObj []) = Inr degraded \<and>
   analyzeSOSContent (\<lambda>s. None)
     (\<lambda>t m. Inl \<lparr> err_code = None, err_status = Some 401, err_message = ''no key'' \<rparr>)
     ''I am lost'' (JObj []) = Inl (Error ''Invalid OpenAI API key'')"
  using
    analyzeSOSContent_failure [where JSON_parse = "\<lambda>s. None" and t = "''I am lost''"
      and metadata = "JObj []" and create =
        "\<lambda>t m. Inl \<lparr> err_code = None, err_status = Some 500, err_message = ''server error'' \<rparr>"]
    analyzeSOSContent_failure [where JSON_parse = "\<lambda>s. None" and t = "''I am lost''"
      and metadata = "JObj []" and create = "\<lambda>t m. Inr [Some ''not json'']"]
    analyzeSOSContent_failure [where JSON_parse = "\<lambda>s. None" and t = "''I am lost''"
      and metadata = "JObj []" and create =
        "\<lambda>t m. Inl \<lparr> err_code = None, err_status = Some 401, err_message = ''no key'' \<rparr>"]
  by simp


text \<open>
  Claim C10. When the call succeeds and its content parses to a value with urgency and
  summary present (truthy, as the structure check asks), \<open>analyzeSOSContent\<close> returns
  the fields of that value with a default in place of every falsy one (and of every
  list that is not an array). A confidence 0 or an absent confidence is returned as 0.5,
  which \<open>validateAIAnalysis\<close> does not take for a low confidence: the manual review is
  then asked for by the override rule or the unknown event type only.
\<close>

theorem analyzeSOSContent_defaults:
  assumes "metadata \<noteq> JNull"
    and "create t (with_default metadata (JObj [])) = Inr (content # rest)"
    and "JSON_parse (case content of None \<Rightarrow> ''null'' | Some c \<Rightarrow> c) = Some j"
    and "truthy (field j ''urgency'')" and "truthy (field j ''summary'')"
  shows "\<exists>r. analyzeSOSContent JSON_parse create t metadata = Inr r \<and>
     urgency r = field j ''urgency'' \<and>
     summary r = field j ''summary'' \<and>
     eventType r = (if falsy (field j ''eventType'') then JStr ''Unknown''
                    else field j ''eventType'') \<and>
     injuryStatus r = (if falsy (field j ''injuryStatus'') then JStr ''Unknown''
                       else field j ''injuryStatus'') \<and>
     riskFactors r = (if isArray (field j ''riskFactors'') then field j ''riskFactors''
                      else JArr []) \<and>
     needs r = (if isArray (field j ''needs'') then field j ''needs'' else JArr []) \<and>
     confidence r = (if falsy (field j ''confidence'') then JNum 0.5
                     else field j ''confidence'') \<and>
     (field j ''confidence'' = JNum 0 \<or> field j ''confidence'' = JUndefined \<longrightarrow>
        confidence r = JNum 0.5 \<and>
        \<not> js_lt conv (confidence r) 0.5 \<and>
        (manualReview (validateAIAnalysis conv r rawText) \<longleftrightarrow>
           (critical_keyword_occurs rawText \<and>
              (urgency r = JStr ''LOW'' \<or> urgency r = JStr ''MEDIUM'')) \<or>
           eventType r = JStr ''Unknown''))"
proof -
  let ?r = "\<lparr> urgency = field j ''urgency'',
       summary = field j ''summary'',
       eventType = (if falsy (field j ''eventType'') then JStr ''Unknown''
                    else field j ''eventType''),
       injuryStatus = (if falsy (field j ''injuryStatus'') then JStr ''Unknown''
                       else field j ''injuryStatus''),
       riskFactors = (if isArray (field j ''riskFactors'') then field j ''riskFactors''
                      else JArr []),
       needs = (if isArray (field j ''needs'') then field j ''needs'' else JArr []),
       confidence = (if falsy (field j ''confidence'') then JNum 0.5
                     else field j ''confidence'') \<rparr>"
  have "read_response JSON_parse (content # rest) = Inr ?r"
    using assms(3-5) by (rule read_response_ok)
  with assms(1,2) have r: "analyzeSOSContent JSON_parse create t metadata = Inr ?r"
    by (simp add: analyzeSOSContent_cases try_call_returns)
  have ev: "\<not> falsy (eventType ?r)" by simp
  have low: "field j ''confidence'' = JNum 0 \<or> field j ''confidence'' = JUndefined \<longrightarrow>
        confidence ?r = JNum 0.5 \<and> \<not> js_lt conv (confidence ?r) 0.5"
    by (auto simp add: js_lt_def)
  have "field j ''confidence'' = JNum 0 \<or> field j ''confidence'' = JUndefined \<longrightarrow>
        (manualReview (validateAIAnalysis conv ?r rawText) \<longleftrightarrow>
           (critical_keyword_occurs rawText \<and>
              (urgency ?r = JStr ''LOW'' \<or> urgency ?r = JStr ''MEDIUM'')) \<or>
           eventType ?r = JStr ''Unknown'')"
    using ev low unfolding manualReview_eq by blast
  with r low show ?thesis by (intro exI [of _ ?r]) simp
qed


theorem analyzeSOSContent_defaults_witness:
  "\<exists>r. analyzeSOSContent
         (\<lambda>s. Some (JObj [(''urgency'', JStr ''HIGH''), (''summary'', JStr ''roof damaged''),
                           (''eventType'', JStr ''storm''), (''confidence'', JNum 0)]))
         (\<lambda>t m. Inr [Some ''{}'']) ''ok'' (JObj []) = Inr r \<and>
       confidence r = JNum 0.5 \<and>
       \<not> manualReview (validateAIAnalysis (\<lambda>v. None) r ''ok'')"
proof -
  let ?j = "JObj [(''urgency'', JStr ''HIGH''), (''summary'', JStr ''roof damaged''),
                  (''eventType'', JStr ''storm''), (''confidence'', JNum 0)]"
  have c: "field ?j ''confidence'' = JNum 0" and u: "field ?j ''urgency'' = JStr ''HIGH''"
    and e: "field ?j ''eventType'' = JStr ''storm''"
    by (simp_all add: field_def)
  have "\<exists>r. analyzeSOSContent (\<lambda>s. Some ?j) (\<lambda>t m. Inr [Some ''{}'']) ''ok'' (JObj []) = Inr r \<and>
     urgency r = field ?j ''urgency'' \<and>
     summary r = field ?j ''summary'' \<and>
     eventType r = (if falsy (field ?j ''eventType'') then JStr ''Unknown''
                    else field ?j ''eventType'') \<and>
     injuryStatus r = (if falsy (field ?j ''injuryStatus'') then JStr ''Unknown''
                       else field ?j ''injuryStatus'') \<and>
     riskFactors r = (if isArray (field ?j ''riskFactors'') then field ?j ''riskFactors''
                      else JArr []) \<and>
     needs r = (if isArray (field ?j ''needs'') then field ?j ''needs'' else JArr []) \<and>
     confidence r = (if falsy (field ?j ''confidence'') then JNum 0.5
                     else field ?j ''confidence'') \<and>
     (field ?j ''confidence'' = JNum 0 \<or> field ?j ''confidence'' = JUndefined \<longrightarrow>
        confidence r = JNum 0.5 \<and>
        \<not> js_lt (\<lambda>v. None) (confidence r) 0.5 \<and>
        (manualReview (validateAIAnalysis (\<lambda>v. None) r ''ok'') \<longleftrightarrow>
           (critical_keyword_occurs ''ok'' \<and>
              (urgency r = JStr ''LOW'' \<or> urgency r = JStr ''MEDIUM'')) \<or>
           eventType r = JStr ''Unknown''))"
    by (rule analyzeSOSContent_defaults [where content = "Some ''{}''" and rest = "[]"])
       (simp_all add: with_default_def field_def)
  then obtain r where
    "analyzeSOSContent (\<lambda>s. Some ?j) (\<lambda>t m. Inr [Some ''{}'']) ''ok'' (JObj []) = Inr r"
    and "confidence r = JNum 0.5"
    and "manualReview (validateAIAnalysis (\<lambda>v. None) r ''ok'') \<longleftrightarrow>
           (critical_keyword_occurs ''ok'' \<and>
              (urgency r = JStr ''LOW'' \<or> urgency r = JStr ''MEDIUM'')) \<or>
           eventType r = JStr ''Unknown''"
    and "eventType r = JStr ''storm''"
    using c e by auto
  then show ?thesis using no_keyword_in_ok by auto
qed


text \<open>
  Claim C6: a request with a session identifier and a valid type is accepted exactly
  when its latitude is in [-90, 90] and its longitude in [-180, 180]. The code does not
  do this: the test for missing coordinates, \<open>!latitude\<close>, holds for the number 0 too,
  so a request on the equator (or on the prime meridian) is rejected with
  \<open>Location data is required\<close>, although 0 passes the range test.
\<close>

theorem validateSOSData_rejects_latitude_zero:
  "validateSOSData conv
     \<lparr> sessionId = JStr ''session-1'', sosType = JStr ''text'',
       location = JObj [(''latitude'', JNum 0), (''longitude'', JNum 77.6)] \<rparr>
   = \<lparr> isValid = False, errors = [''Location data is required''] \<rparr>"
  by (simp add: validateSOSData_def Let_def field_def js_lt_def js_gt_def validTypes_def)

text \<open>
  Claim C5: an error of an adapter stage after the creation of the case ends with the case
  \<open>failed\<close> and the message in \<open>processingErrors\<close>. The text path does not do this:
  when the analysis service rejects the credential, \<open>analyzeSOSContent\<close> throws, and the
  handler of \<open>createTextSOS\<close> answers 500 without an update of the case, which stays
  \<open>processing\<close> with no error recorded.
\<close>

theorem createTextSOS_leaves_processing:
  "createTextSOS
     \<lparr> toNumber = (\<lambda>v. None), parseJSON = (\<lambda>s. None), existsSync = (\<lambda>p. True),
       whisper = (\<lambda>p. Inr ''help''),
       chat = (\<lambda>t m. Inl \<lparr> err_code = None, err_status = Some 401,
                             err_message = ''Incorrect API key provided'' \<rparr>),
       castIntake = (\<lambda>s l. Some (s, l)), castAnalysis = Some \<rparr>
     1000 (JStr ''session-1'')
     (JObj [(''latitude'', JNum 12.9), (''longitude'', JNum 77.6)])
     (JStr ''I am trapped under rubble, bleeding'') []
   = ([\<lparr> sessionId = JStr ''session-1'', sosType = JStr ''text'',
         location = JObj [(''latitude'', JNum 12.9), (''longitude'', JNum 77.6)],
         sos_id = 0, voiceFileUrl = None,
         textMessage = Some ''I am trapped under rubble, bleeding'',
         transcript = Some ''I am trapped under rubble, bleeding'',
         aiAnalysis = None, validationFlags = None,
         status = ''processing'', processingErrors = [],
         receivedAt = 1000, processedAt = None \<rparr>],
      ServerError ''Failed to process text SOS'', [Analysis])"
proof -
  have v: "isValid (validateSOSData (\<lambda>v. None)
     \<lparr> sessionId = JStr ''session-1'', sosType = JStr ''text'',
       location = JObj [(''latitude'', JNum 12.9), (''longitude'', JNum 77.6)] \<rparr>)"
    by (simp add: validateSOSData_def Let_def field_def js_lt_def js_gt_def validTypes_def)
  have t: "trim ''I am trapped under rubble, bleeding'' \<noteq> []"
    by (simp add: trim_def is_space_def)
  show ?thesis
    using v t
    by (simp add: createTextSOS_def Let_def SOS_create_def analyzeTextSOS_def
        metadata_obj_def analyzeSOSContent_401)
qed

text \<open>
  Claim C7: the listing ranks the cases by urgency, CRITICAL first. The code does not do
  this: the urgencies are strings, and the descending sort of the store orders them as
  strings, MEDIUM, LOW, HIGH, CRITICAL. Of four cases received at the same time, one of
  each urgency, the CRITICAL one is listed last.
\<close>

theorem getAllSOS_lists_CRITICAL_last:
  "(let mk = (\<lambda>i u.
        \<lparr> sessionId = JStr ''session-1'', sosType = JStr ''text'',
          location = JObj [(''latitude'', JNum 12.9), (''longitude'', JNum 77.6)],
          sos_id = i, voiceFileUrl = None, textMessage = Some ''message'',
          transcript = Some ''message'',
          aiAnalysis = Some \<lparr> urgency = JStr u, summary = JStr ''summary'',
            eventType = JStr ''flood'', injuryStatus = JStr ''none'', riskFactors = JArr [],
            needs = JArr [], confidence = JNum 0.9 \<rparr>,
          validationFlags = Some \<lparr> hasKeywords = False, meetsThreshold = True,
            manualReview = False \<rparr>,
          status = ''processed'', processingErrors = [],
          receivedAt = 1000, processedAt = Some 1001 \<rparr>)
    in map sos_id
         (getAllSOS None None 100 0
            [mk 0 ''CRITICAL'', mk 1 ''HIGH'', mk 2 ''MEDIUM'', mk 3 ''LOW'']))
   = [2, 3, 1, 0]"
  unfolding Let_def
  by (subst listing_order) (simp_all add: stored_urgency_def)


text \<open>
  Claim C8. For a voice report (a case that \<open>createVoiceSOS\<close> has created) whose
  transcription fails, the run of \<open>processVoiceSOS\<close> leaves the case \<open>failed\<close> with the
  message of the error as its one processing error, writes no analysis and no validation
  flags, and invokes the transcription stage only. Whenever a run invokes the analysis
  or the validation stage, the transcription has returned a text and the case holds it
  as its transcript.
\<close>

theorem voice_transcription_failure:
  assumes "ids_in_use db0"
    and "createVoiceSOS rt now0 sid loc audio db0 = (db, rsp, Some (i, p))"
  shows "(\<forall>error. transcribeAudio (existsSync rt) (whisper rt) p = Inl error \<longrightarrow>
            snd (processVoiceSOS rt now i p db) = [Transcription] \<and>
            (\<exists>c. findById (fst (processVoiceSOS rt now i p db)) i = Some c \<and>
                 status c = ''failed'' \<and>
                 processingErrors c = [err_message error] \<and>
                 err_message error \<noteq> [] \<and>
                 aiAnalysis c = None \<and> validationFlags c = None)) \<and>
         (Analysis \<in> set (snd (processVoiceSOS rt now i p db)) \<or>
          Validation \<in> set (snd (processVoiceSOS rt now i p db)) \<longrightarrow>
            (\<exists>text c. transcribeAudio (existsSync rt) (whisper rt) p = Inr text \<and>
                 findById (fst (processVoiceSOS rt now i p db)) i = Some c \<and>
                 transcript c = Some text))"
proof -
  from assms(2) obtain c0 where db: "db = db0 @ [c0]" and i: "i = length db0"
    and c0: "sos_id c0 = length db0" "aiAnalysis c0 = None" "validationFlags c0 = None"
    using createVoiceSOS_started by blast
  have found: "findById db i = Some c0"
    unfolding db i using assms(1) c0(1) by (rule findById_new)
  note outcome = processVoiceSOS_outcome [OF found, of rt p now]
  have first: "\<forall>error. transcribeAudio (existsSync rt) (whisper rt) p = Inl error \<longrightarrow>
            snd (processVoiceSOS rt now i p db) = [Transcription] \<and>
            (\<exists>c. findById (fst (processVoiceSOS rt now i p db)) i = Some c \<and>
                 status c = ''failed'' \<and>
                 processingErrors c = [err_message error] \<and>
                 err_message error \<noteq> [] \<and>
                 aiAnalysis c = None \<and> validationFlags c = None)"
  proof (intro allI impI)
    fix e
    assume e: "transcribeAudio (existsSync rt) (whisper rt) p = Inl e"
    then have m: "err_message e \<noteq> []" by (rule transcribeAudio_message)
    from outcome e have "snd (processVoiceSOS rt now i p db) = [Transcription] \<and>
            findById (fst (processVoiceSOS rt now i p db)) i =
              Some (c0\<lparr> status := ''failed'', processingErrors := [err_message e] \<rparr>)"
      by auto
    with m c0 show "snd (processVoiceSOS rt now i p db) = [Transcription] \<and>
            (\<exists>c. findById (fst (processVoiceSOS rt now i p db)) i = Some c \<and>
                 status c = ''failed'' \<and>
                 processingErrors c = [err_message e] \<and>
                 err_message e \<noteq> [] \<and>
                 aiAnalysis c = None \<and> validationFlags c = None)"
      by simp
  qed
  have second: "Analysis \<in> set (snd (processVoiceSOS rt now i p db)) \<or>
          Validation \<in> set (snd (processVoiceSOS rt now i p db)) \<longrightarrow>
            (\<exists>text c. transcribeAudio (existsSync rt) (whisper rt) p = Inr text \<and>
                 findById (fst (processVoiceSOS rt now i p db)) i = Some c \<and>
                 transcript c = Some text)"
    using outcome by auto
  from first second show ?thesis by (rule conjI)
qed

theorem voice_transcription_failure_witness:
  "(let rt = \<lparr> toNumber = (\<lambda>v. None),
               parseJSON = (\<lambda>s. Some (JObj [(''latitude'', JNum 12.9),
                                              (''longitude'', JNum 77.6)])),
               existsSync = (\<lambda>p. False),
               whisper = (\<lambda>p. Inr ''help''),
               chat = (\<lambda>t m. Inr []),
               castIntake = (\<lambda>s l. Some (s, l)), castAnalysis = Some \<rparr>;
        db = fst (createVoiceSOS rt 1000 (JStr ''session-1'') (Some ''{}'')
                    (Some ''uploads/a.wav'') []);
        run = processVoiceSOS rt 1001 0 ''uploads/a.wav'' db
    in snd run = [Transcription] \<and>
       (\<exists>c. findById (fst run) 0 = Some c \<and>
            status c = ''failed'' \<and>
            processingErrors c =
              [''Transcription failed: Audio file not found: uploads/a.wav''] \<and>
            aiAnalysis c = None \<and> validationFlags c = None))"
proof -
  let ?rt = "\<lparr> toNumber = (\<lambda>v. None),
               parseJSON = (\<lambda>s. Some (JObj [(''latitude'', JNum 12.9),
                                              (''longitude'', JNum 77.6)])),
               existsSync = (\<lambda>p. False),
               whisper = (\<lambda>p. Inr ''help''),
               chat = (\<lambda>t m. Inr []),
               castIntake = (\<lambda>s l. Some (s, l)), castAnalysis = Some \<rparr>"
  let ?created = "createVoiceSOS ?rt 1000 (JStr ''session-1'') (Some ''{}'')
                    (Some ''uploads/a.wav'') []"
  have v: "isValid (validateSOSData (\<lambda>v. None)
     \<lparr> sessionId = JStr ''session-1'', sosType = JStr ''voice'',
       location = JObj [(''latitude'', JNum 12.9), (''longitude'', JNum 77.6)] \<rparr>)"
    by (simp add: validateSOSData_def Let_def field_def js_lt_def js_gt_def validTypes_def)
  have created: "?created =
      (fst ?created, fst (snd ?created), Some (0, ''uploads/a.wav''))"
    using v by (simp add: createVoiceSOS_def Let_def SOS_create_def)
  have failing: "transcribeAudio (existsSync ?rt) (whisper ?rt) ''uploads/a.wav'' =
      Inl (Error ''Transcription failed: Audio file not found: uploads/a.wav'')"
    by (simp add: transcribeAudio_def Error_def)
  have ids: "ids_in_use []" by (simp add: ids_in_use_def)
  show ?thesis
    using voice_transcription_failure [OF ids created, of 1001] failing
    by (simp add: Let_def Error_def)
qed


end
